theory Spec2Isabelle
  imports Main "HOL-Library.Word" "HOL-Library.Signed_Division"
begin

unbundle bit_operations_syntax

section \<open>The values of Go's package time that clock.go stores and returns\<close>

text \<open>
  clock.go keeps a \<^verbatim>\<open>time.Time\<close> in every fake clock and changes it with
  \<^verbatim>\<open>time.Time.Add\<close>. A \<^verbatim>\<open>time.Time\<close> is the struct
  \<^verbatim>\<open>{wall uint64; ext int64; loc *Location}\<close>; a \<^verbatim>\<open>time.Duration\<close> is an
  \<^verbatim>\<open>int64\<close> count of nanoseconds. Both machine integers are 64-bit words here:
  \<open>+\<close> and \<open>-\<close> wrap around as Go's do, \<open>sint\<close> reads a word as Go reads an
  \<^verbatim>\<open>int64\<close>, \<open>uint\<close> as Go reads a \<^verbatim>\<open>uint64\<close>.
\<close>

type_synonym uint64 = "64 word"
type_synonym int64 = "64 word"
type_synonym int32 = "32 word"
type_synonym Duration = int64

text \<open>
  A \<^verbatim>\<open>*Location\<close>: the nil pointer, the addresses of the package variables
  \<^verbatim>\<open>utcLoc\<close> and \<^verbatim>\<open>localLoc\<close>, or the address of any other zone.
\<close>

datatype Location_ptr = nil | utcLoc | localLoc | zone nat

record Time =
  wall :: uint64
  ext :: int64
  loc :: Location_ptr

text \<open>Go's \<^verbatim>\<open>/\<close> and \<^verbatim>\<open>%\<close> on \<^verbatim>\<open>int64\<close> truncate towards zero.\<close>

definition int64_quo :: "int64 \<Rightarrow> int64 \<Rightarrow> int64" where
  "int64_quo a b = word_of_int (sint a sdiv sint b)"

definition int64_rem :: "int64 \<Rightarrow> int64 \<Rightarrow> int64" where
  "int64_rem a b = word_of_int (sint a smod sint b)"

definition hasMonotonic :: uint64 where
  "hasMonotonic = push_bit 63 1"

definition nsecMask :: uint64 where
  "nsecMask = push_bit 30 1 - 1"

definition nsecShift :: nat where
  "nsecShift = 30"

definition secondsPerDay :: int where
  "secondsPerDay = 24 * 60 * 60"

definition unixToInternal :: int64 where
  "unixToInternal =
     word_of_int ((1969 * 365 + 1969 div 4 - 1969 div 100 + 1969 div 400) * secondsPerDay)"

definition wallToInternal :: int64 where
  "wallToInternal =
     word_of_int ((1884 * 365 + 1884 div 4 - 1884 div 100 + 1884 div 400) * secondsPerDay)"

text \<open>\<^verbatim>\<open>func (t *Time) nsec() int32 { return int32(t.wall & nsecMask) }\<close>\<close>

definition time_nsec :: "Time \<Rightarrow> int32" where
  "time_nsec t = ucast (wall t AND nsecMask)"

text \<open>
  \<^verbatim>\<open>func (t *Time) sec() int64\<close>: the seconds since January 1 of year 1, read from the
  33-bit field of \<open>wall\<close> when the monotonic flag is set and from \<open>ext\<close> otherwise.
\<close>

definition time_sec :: "Time \<Rightarrow> int64" where
  "time_sec t =
     (if wall t AND hasMonotonic \<noteq> 0
      then wallToInternal + drop_bit (nsecShift + 1) (push_bit 1 (wall t))
      else ext t)"

text \<open>\<^verbatim>\<open>func (t *Time) stripMono()\<close>\<close>

definition stripMono :: "Time \<Rightarrow> Time" where
  "stripMono t =
     (if wall t AND hasMonotonic \<noteq> 0
      then t\<lparr>ext := time_sec t, wall := wall t AND nsecMask\<rparr>
      else t)"

text \<open>
  \<^verbatim>\<open>func (t *Time) addSec(d int64)\<close>: with a monotonic reading the seconds live in
  \<open>wall\<close> as long as they fit its 33 bits; otherwise they are added to \<open>ext\<close>, and a sum
  that leaves the \<^verbatim>\<open>int64\<close> range is replaced by the nearest bound.
\<close>

definition addSec_ext :: "Time \<Rightarrow> int64 \<Rightarrow> Time" where
  "addSec_ext t d =
     (let sum = ext t + d in
      if (sint (ext t) < sint sum) = (0 < sint d) then t\<lparr>ext := sum\<rparr>
      else if 0 < sint d then t\<lparr>ext := push_bit 63 1 - 1\<rparr>
      else t\<lparr>ext := - (push_bit 63 1 - 1)\<rparr>)"

definition addSec :: "Time \<Rightarrow> int64 \<Rightarrow> Time" where
  "addSec t d =
     (if wall t AND hasMonotonic \<noteq> 0
      then
        (let sec = drop_bit (nsecShift + 1) (push_bit 1 (wall t));
             dsec = sec + d
         in if 0 \<le> sint dsec \<and> sint dsec \<le> 2 ^ 33 - 1
            then t\<lparr>wall := wall t AND nsecMask OR push_bit nsecShift dsec OR hasMonotonic\<rparr>
            else addSec_ext (stripMono t) d)
      else addSec_ext t d)"

text \<open>
  \<^verbatim>\<open>func (t Time) Add(d Duration) Time\<close>. The receiver is a copy, so the function
  returns a new value. \<open>nsec\<close> is an \<^verbatim>\<open>int32\<close>; its conversion to \<^verbatim>\<open>uint64\<close>
  extends the sign.
\<close>

definition time_Add :: "Time \<Rightarrow> Duration \<Rightarrow> Time" where
  "time_Add t d =
     (let dsec = int64_quo d 1000000000;
          nsec = time_nsec t + (ucast (int64_rem d 1000000000) :: int32);
          (dsec, nsec) =
            (if 1000000000 \<le> sint nsec then (dsec + 1, nsec - 1000000000)
             else if sint nsec < 0 then (dsec - 1, nsec + 1000000000)
             else (dsec, nsec));
          t = t\<lparr>wall := wall t AND NOT nsecMask OR (scast nsec :: uint64)\<rparr>;
          t = addSec t dsec
      in if wall t AND hasMonotonic \<noteq> 0
         then
           (let te = ext t + d
            in if sint d < 0 \<and> sint (ext t) < sint te \<or> 0 < sint d \<and> sint te < sint (ext t)
               then stripMono t
               else t\<lparr>ext := te\<rparr>)
         else t)"

text \<open>
  \<^verbatim>\<open>func Unix(sec int64, nsec int64) Time\<close> and \<^verbatim>\<open>unixTime\<close>: the result has no
  monotonic reading and the location \<^verbatim>\<open>Local\<close>.
\<close>

definition unixTime :: "int64 \<Rightarrow> int32 \<Rightarrow> Time" where
  "unixTime sec nsec = \<lparr>wall = scast nsec, ext = sec + unixToInternal, loc = localLoc\<rparr>"

definition time_Unix :: "int64 \<Rightarrow> int64 \<Rightarrow> Time" where
  "time_Unix sec nsec =
     (if sint nsec < 0 \<or> 1000000000 \<le> sint nsec
      then
        (let n = int64_quo nsec 1000000000;
             sec = sec + n;
             nsec = nsec - n * 1000000000;
             (sec, nsec) = (if sint nsec < 0 then (sec - 1, nsec + 1000000000) else (sec, nsec))
         in unixTime sec (ucast nsec))
      else unixTime sec (ucast nsec))"

text \<open>
  \<^verbatim>\<open>func (t *Time) setLoc(loc *Location)\<close> stores nil for \<^verbatim>\<open>&utcLoc\<close>;
  \<^verbatim>\<open>func (t Time) UTC() Time\<close> is \<^verbatim>\<open>t.setLoc(&utcLoc)\<close>;
  \<^verbatim>\<open>func (t Time) Location() *Location\<close> reads nil as \<^verbatim>\<open>UTC\<close>, which is
  \<^verbatim>\<open>&utcLoc\<close>.
\<close>

definition setLoc :: "Time \<Rightarrow> Location_ptr \<Rightarrow> Time" where
  "setLoc t l = (stripMono t)\<lparr>loc := (if l = utcLoc then nil else l)\<rparr>"

definition time_UTC :: "Time \<Rightarrow> Time" where
  "time_UTC t = setLoc t utcLoc"

definition time_Location :: "Time \<Rightarrow> Location_ptr" where
  "time_Location t = (if loc t = nil then utcLoc else loc t)"

text \<open>
  \<^verbatim>\<open>func (t Time) Unix() int64\<close> and \<^verbatim>\<open>func (t Time) Nanosecond() int\<close>, the
  accessors that read an instant back.
\<close>

definition time_Unix_sec :: "Time \<Rightarrow> int64" where
  "time_Unix_sec t = time_sec t - unixToInternal"

definition time_Nanosecond :: "Time \<Rightarrow> int" where
  "time_Nanosecond t = sint (time_nsec t)"

text \<open>
  The instant a \<^verbatim>\<open>Time\<close> denotes, as an unbounded count of nanoseconds since
  January 1 of year 1: \<^verbatim>\<open>sec()\<close> seconds and \<^verbatim>\<open>nsec()\<close> nanoseconds. This is
  the quantity \<^verbatim>\<open>Time.Equal\<close>, \<^verbatim>\<open>Before\<close> and \<^verbatim>\<open>After\<close> compare when a
  monotonic reading is missing.
\<close>

definition instant_ns :: "Time \<Rightarrow> int" where
  "instant_ns t = sint (time_sec t) * 1000000000 + time_Nanosecond t"

section \<open>clock.go\<close>

text \<open>
  What can stop a call before it returns: a method called through a pointer that points
  to no \<^verbatim>\<open>fake\<close> (Go panics with a nil dereference), a lock that is never granted
  (with one caller, nobody is left to release it), and sync's fatal error for releasing
  a lock that is not held.
\<close>

datatype failure = nil_dereference | blocked_forever | unlock_of_unlocked

text \<open>
  \<^verbatim>\<open>sync.RWMutex\<close>, as far as callers can observe it: whether a writer holds it and
  how many readers do. The zero value is unlocked.
\<close>

record RWMutex =
  writer :: bool
  readers :: nat

definition RWMutex_zero :: RWMutex where
  "RWMutex_zero = \<lparr>writer = False, readers = 0\<rparr>"

definition RLock :: "RWMutex \<Rightarrow> failure + RWMutex" where
  "RLock m = (if writer m then Inl blocked_forever else Inr (m\<lparr>readers := Suc (readers m)\<rparr>))"

definition RUnlock :: "RWMutex \<Rightarrow> failure + RWMutex" where
  "RUnlock m =
     (if readers m = 0 then Inl unlock_of_unlocked else Inr (m\<lparr>readers := readers m - 1\<rparr>))"

definition Lock :: "RWMutex \<Rightarrow> failure + RWMutex" where
  "Lock m =
     (if writer m \<or> 0 < readers m then Inl blocked_forever else Inr (m\<lparr>writer := True\<rparr>))"

definition Unlock :: "RWMutex \<Rightarrow> failure + RWMutex" where
  "Unlock m = (if writer m then Inr (m\<lparr>writer := False\<rparr>) else Inl unlock_of_unlocked)"

text \<open>
  \<^verbatim>\<open>type sysClock struct{}\<close> has one value; \<^verbatim>\<open>systemClock\<close> is a package variable
  that no statement of the package assigns after its initialisation.
\<close>

datatype sysClock = sysClock

definition systemClock :: sysClock where
  "systemClock = sysClock"

definition Default :: "unit \<Rightarrow> sysClock" where
  "Default u = systemClock"

text \<open>
  \<^verbatim>\<open>func (s sysClock) Now() time.Time { return time.Now() }\<close>. The host's clock is
  outside the program: the second argument is the value that \<^verbatim>\<open>time.Now()\<close> yields
  at the moment of the call.
\<close>

definition sysClock_Now :: "sysClock \<Rightarrow> Time \<Rightarrow> Time" where
  "sysClock_Now s host_now = host_now"

text \<open>
  \<^verbatim>\<open>type fake struct { sync.RWMutex; t time.Time }\<close>. Fake clocks are only handled
  through pointers, so they live in a store: a pointer is an index into the list of all
  \<^verbatim>\<open>fake\<close> structs allocated so far. Go never frees or moves them.
\<close>

record fake =
  fake_RWMutex :: RWMutex
  fake_t :: Time

type_synonym store = "fake list"
type_synonym fake_ptr = nat

definition deref :: "store \<Rightarrow> fake_ptr \<Rightarrow> failure + fake" where
  "deref h f = (if f < length h then Inr (h ! f) else Inl nil_dereference)"

text \<open>
  \<^verbatim>\<open>func NewFake() FakeClock { return &fake{t: time.Unix(0, 0).UTC()} }\<close>: a new
  struct at a new address, its lock the zero value.
\<close>

definition NewFake :: "store \<Rightarrow> fake_ptr \<times> store" where
  "NewFake h =
     (length h, h @ [\<lparr>fake_RWMutex = RWMutex_zero, fake_t = time_UTC (time_Unix 0 0)\<rparr>])"

text \<open>
  \<^verbatim>\<open>func (f *fake) Now() time.Time { f.RLock(); defer f.RUnlock(); return f.t }\<close>.
  The result is copied out of the struct before the deferred \<^verbatim>\<open>RUnlock\<close> runs.
\<close>

definition fake_Now :: "fake_ptr \<Rightarrow> store \<Rightarrow> failure + (Time \<times> store)" where
  "fake_Now f h =
     (case deref h f of Inl e \<Rightarrow> Inl e | Inr c \<Rightarrow>
       (case RLock (fake_RWMutex c) of Inl e \<Rightarrow> Inl e | Inr m \<Rightarrow>
         (let c = c\<lparr>fake_RWMutex := m\<rparr>;
              result = fake_t c
          in (case RUnlock (fake_RWMutex c) of Inl e \<Rightarrow> Inl e | Inr m \<Rightarrow>
                Inr (result, h[f := c\<lparr>fake_RWMutex := m\<rparr>])))))"

text \<open>
  \<^verbatim>\<open>func (f *fake) Add(d time.Duration) { f.Lock(); defer f.Unlock(); f.t = f.t.Add(d) }\<close>
\<close>

definition fake_Add :: "fake_ptr \<Rightarrow> Duration \<Rightarrow> store \<Rightarrow> failure + store" where
  "fake_Add f d h =
     (case deref h f of Inl e \<Rightarrow> Inl e | Inr c \<Rightarrow>
       (case Lock (fake_RWMutex c) of Inl e \<Rightarrow> Inl e | Inr m \<Rightarrow>
         (let c = c\<lparr>fake_RWMutex := m\<rparr>;
              c = c\<lparr>fake_t := time_Add (fake_t c) d\<rparr>
          in (case Unlock (fake_RWMutex c) of Inl e \<Rightarrow> Inl e | Inr m \<Rightarrow>
                Inr (h[f := c\<lparr>fake_RWMutex := m\<rparr>])))))"

text \<open>
  \<^verbatim>\<open>func (f *fake) Set(t time.Time) { f.Lock(); defer f.Unlock(); f.t = t }\<close>
\<close>

definition fake_Set :: "fake_ptr \<Rightarrow> Time \<Rightarrow> store \<Rightarrow> failure + store" where
  "fake_Set f x h =
     (case deref h f of Inl e \<Rightarrow> Inl e | Inr c \<Rightarrow>
       (case Lock (fake_RWMutex c) of Inl e \<Rightarrow> Inl e | Inr m \<Rightarrow>
         (let c = c\<lparr>fake_RWMutex := m\<rparr>;
              c = c\<lparr>fake_t := x\<rparr>
          in (case Unlock (fake_RWMutex c) of Inl e \<Rightarrow> Inl e | Inr m \<Rightarrow>
                Inr (h[f := c\<lparr>fake_RWMutex := m\<rparr>])))))"

text \<open>
  A sequence of the two mutations, applied to one clock in order; the first call that
  does not return ends the run.
\<close>

datatype mutation = Add Duration | Set Time

fun mutate :: "fake_ptr \<Rightarrow> mutation list \<Rightarrow> store \<Rightarrow> failure + store" where
  "mutate f [] h = Inr h"
| "mutate f (Add d # ms) h =
     (case fake_Add f d h of Inl e \<Rightarrow> Inl e | Inr h' \<Rightarrow> mutate f ms h')"
| "mutate f (Set x # ms) h =
     (case fake_Set f x h of Inl e \<Rightarrow> Inl e | Inr h' \<Rightarrow> mutate f ms h')"

text \<open>
  Between two calls a clock that \<^verbatim>\<open>NewFake\<close> handed out is allocated and its lock
  is free: \<open>live\<close> is that condition.
\<close>

definition idle :: "RWMutex \<Rightarrow> bool" where
  "idle m = (\<not> writer m \<and> readers m = 0)"

definition live :: "store \<Rightarrow> fake_ptr \<Rightarrow> bool" where
  "live h f = (f < length h \<and> idle (fake_RWMutex (h ! f)))"

section \<open>Calls on a live clock\<close>

lemma deref_live: "live h f \<Longrightarrow> deref h f = Inr (h ! f)"
  by (simp add: live_def deref_def)

lemma RLock_RUnlock_idle:
  "idle m \<Longrightarrow> RLock m = Inr (m\<lparr>readers := Suc 0\<rparr>) \<and> RUnlock (m\<lparr>readers := Suc 0\<rparr>) = Inr m"
  by (simp add: idle_def RLock_def RUnlock_def)

lemma Lock_Unlock_idle:
  "idle m \<Longrightarrow> Lock m = Inr (m\<lparr>writer := True\<rparr>) \<and> Unlock (m\<lparr>writer := True\<rparr>) = Inr m"
  by (simp add: idle_def Lock_def Unlock_def)

lemma fake_Now_live: "live h f \<Longrightarrow> fake_Now f h = Inr (fake_t (h ! f), h)"
  using RLock_RUnlock_idle [of "fake_RWMutex (h ! f)"]
  by (simp add: fake_Now_def deref_live live_def)

lemma fake_Add_live:
  "live h f \<Longrightarrow> fake_Add f d h = Inr (h[f := (h ! f)\<lparr>fake_t := time_Add (fake_t (h ! f)) d\<rparr>])"
  using Lock_Unlock_idle [of "fake_RWMutex (h ! f)"]
  by (simp add: fake_Add_def deref_live live_def)

lemma fake_Set_live:
  "live h f \<Longrightarrow> fake_Set f x h = Inr (h[f := (h ! f)\<lparr>fake_t := x\<rparr>])"
  using Lock_Unlock_idle [of "fake_RWMutex (h ! f)"]
  by (simp add: fake_Set_def deref_live live_def)

lemma live_store_t: "live h f \<Longrightarrow> live (h[f := (h ! f)\<lparr>fake_t := x\<rparr>]) g = live h g"
  by (cases "g = f") (simp_all add: live_def)

lemma epoch_value: "time_UTC (time_Unix 0 0) = \<lparr>wall = 0, ext = unixToInternal, loc = nil\<rparr>"
  by (simp add: time_UTC_def setLoc_def stripMono_def time_Unix_def unixTime_def)

lemma NewFake_live: "live (snd (NewFake h)) (fst (NewFake h))"
  by (simp add: NewFake_def live_def idle_def RWMutex_zero_def)

lemma NewFake_keeps:
  "live h f \<Longrightarrow> live (snd (NewFake h)) f \<and> snd (NewFake h) ! f = h ! f \<and> f \<noteq> fst (NewFake h)"
  by (simp add: NewFake_def live_def nth_append)

lemma live_first_clock: "live (snd (NewFake [])) 0"
  using NewFake_live [of "[]"] by (simp add: NewFake_def)

lemma loc_stripMono: "loc (stripMono s) = loc s"
  by (simp add: stripMono_def)

lemma loc_addSec_ext: "loc (addSec_ext s d) = loc s"
  by (simp add: addSec_ext_def Let_def)

lemma loc_addSec: "loc (addSec s d) = loc s"
  by (simp add: addSec_def Let_def loc_addSec_ext loc_stripMono)

lemma loc_time_Add: "loc (time_Add s d) = loc s"
  by (simp add: time_Add_def Let_def loc_addSec loc_stripMono split: prod.splits)

lemma mutate_live:
  "live h f \<Longrightarrow> \<exists>h'. mutate f ms h = Inr h' \<and> length h' = length h \<and> live h' f \<and>
     (\<forall>g. g \<noteq> f \<longrightarrow> h' ! g = h ! g)"
proof (induction ms arbitrary: h)
  case Nil
  then show ?case by simp
next
  case (Cons m ms)
  show ?case
  proof (cases m)
    case (Add d)
    let ?h1 = "h[f := (h ! f)\<lparr>fake_t := time_Add (fake_t (h ! f)) d\<rparr>]"
    have l1: "live ?h1 f" using Cons.prems by (simp add: live_store_t)
    from Cons.IH [OF l1] obtain h' where
      "mutate f ms ?h1 = Inr h'" "length h' = length ?h1" "live h' f"
      "\<forall>g. g \<noteq> f \<longrightarrow> h' ! g = ?h1 ! g" by blast
    then show ?thesis using Cons.prems Add by (simp add: fake_Add_live)
  next
    case (Set x)
    let ?h1 = "h[f := (h ! f)\<lparr>fake_t := x\<rparr>]"
    have l1: "live ?h1 f" using Cons.prems by (simp add: live_store_t)
    from Cons.IH [OF l1] obtain h' where
      "mutate f ms ?h1 = Inr h'" "length h' = length ?h1" "live h' f"
      "\<forall>g. g \<noteq> f \<longrightarrow> h' ! g = ?h1 ! g" by blast
    then show ?thesis using Cons.prems Set by (simp add: fake_Set_live)
  qed
qed

section \<open>The claims\<close>

text \<open>
  C1. On the clock that \<^verbatim>\<open>NewFake\<close> has just returned, with no mutation applied,
  \<^verbatim>\<open>Now\<close> returns the Unix epoch in UTC: the value with no monotonic reading whose
  Unix seconds and nanoseconds are both zero and whose location is UTC. \<^verbatim>\<open>NewFake\<close>
  takes no reading of the host's clock, so the value cannot depend on one.
\<close>

theorem NewFake_Now_is_epoch_UTC:
  "\<exists>v. fake_Now (fst (NewFake h)) (snd (NewFake h)) = Inr (v, snd (NewFake h)) \<and>
       v = \<lparr>wall = 0, ext = unixToInternal, loc = nil\<rparr> \<and>
       time_Unix_sec v = 0 \<and> time_Nanosecond v = 0 \<and> time_Location v = utcLoc"
  using fake_Now_live [OF NewFake_live, of h]
  by (simp add: NewFake_def epoch_value time_Unix_sec_def time_sec_def time_Nanosecond_def
      time_nsec_def time_Location_def hasMonotonic_def)

theorem NewFake_Now_is_epoch_UTC_witness:
  "fake_Now 0 (snd (NewFake [])) =
     Inr (\<lparr>wall = 0, ext = 62135596800, loc = nil\<rparr>, snd (NewFake []))"
  using NewFake_Now_is_epoch_UTC [of "[]"]
  by (simp add: NewFake_def unixToInternal_def secondsPerDay_def)

text \<open>
  C2. On every live clock, whatever instant it stores, \<^verbatim>\<open>Set(x)\<close> followed by
  \<^verbatim>\<open>Now()\<close> returns exactly \<open>x\<close>, for every \<open>x\<close>: nothing compares \<open>x\<close> with the
  stored instant, so an \<open>x\<close> earlier than it is stored like any other.
\<close>

theorem Set_then_Now_returns_argument:
  "live h f \<Longrightarrow> \<exists>h'. fake_Set f x h = Inr h' \<and> fake_Now f h' = Inr (x, h')"
proof -
  assume l: "live h f"
  let ?h' = "h[f := (h ! f)\<lparr>fake_t := x\<rparr>]"
  have "live ?h' f" using l by (simp add: live_store_t)
  then have "fake_Now f ?h' = Inr (fake_t (?h' ! f), ?h')" by (rule fake_Now_live)
  moreover have "fake_t (?h' ! f) = x" using l by (simp add: live_def)
  ultimately show ?thesis using l by (simp add: fake_Set_live)
qed

theorem Set_then_Now_returns_argument_witness:
  "live (snd (NewFake [])) 0 \<and>
   (\<exists>h'. fake_Set 0 \<lparr>wall = 5, ext = 7, loc = localLoc\<rparr> (snd (NewFake [])) = Inr h' \<and>
      fake_Now 0 h' = Inr (\<lparr>wall = 5, ext = 7, loc = localLoc\<rparr>, h'))"
  by (rule conjI [OF live_first_clock Set_then_Now_returns_argument [OF live_first_clock]])

text \<open>
  C5. \<^verbatim>\<open>Now\<close> on a live clock returns the stored instant and hands the store back
  exactly as it found it, locks included, so the next \<^verbatim>\<open>Now\<close> returns the same
  instant. What it returns is a copy of the struct: the caller's value is not part of
  the store, and nothing done to it can reach the clock. Creating another clock leaves
  the stored instant of every existing clock as it was.
\<close>

theorem Now_leaves_store_unchanged:
  "live h f \<Longrightarrow>
     (\<exists>v. fake_Now f h = Inr (v, h) \<and> v = fake_t (h ! f)) \<and>
     fake_t (snd (NewFake h) ! f) = fake_t (h ! f)"
  using NewFake_keeps [of h f] by (simp add: fake_Now_live)

theorem Now_leaves_store_unchanged_witness:
  "live (snd (NewFake [])) 0 \<and>
   (\<exists>v. fake_Now 0 (snd (NewFake [])) = Inr (v, snd (NewFake [])) \<and>
      v = fake_t (snd (NewFake []) ! 0)) \<and>
   fake_t (snd (NewFake (snd (NewFake []))) ! 0) = fake_t (snd (NewFake []) ! 0)"
  by (rule conjI [OF live_first_clock Now_leaves_store_unchanged [OF live_first_clock]])

text \<open>
  C6. Two clocks that come from separate calls of \<^verbatim>\<open>NewFake\<close> (the second call made
  on the store as the first call left it, or on any later store) are different pointers,
  and in every store \<open>h\<close> where both are live, any sequence of \<^verbatim>\<open>Add\<close> and
  \<^verbatim>\<open>Set\<close> calls on one of them runs to its end and leaves what \<^verbatim>\<open>Now\<close> returns
  on the other unchanged.
\<close>

theorem separate_NewFake_clocks_independent:
  assumes "NewFake h0 = (f, h1)" and "NewFake h2 = (g, h3)" and "length h1 \<le> length h2"
    and "live h f" and "live h g"
  shows "f \<noteq> g \<and>
    (\<exists>v h'. mutate f ms h = Inr h' \<and> fake_Now g h = Inr (v, h) \<and> fake_Now g h' = Inr (v, h')) \<and>
    (\<exists>v h'. mutate g ms h = Inr h' \<and> fake_Now f h = Inr (v, h) \<and> fake_Now f h' = Inr (v, h'))"
proof -
  have ne: "f \<noteq> g" using assms(1,2,3) by (auto simp: NewFake_def)
  have one: "\<exists>v h'. mutate a ms h = Inr h' \<and> fake_Now b h = Inr (v, h) \<and> fake_Now b h' = Inr (v, h')"
    if "live h a" "live h b" "a \<noteq> b" for a b
  proof -
    from mutate_live [OF that(1), of ms] obtain h' where
      m: "mutate a ms h = Inr h'" and len: "length h' = length h"
      and same: "\<forall>c. c \<noteq> a \<longrightarrow> h' ! c = h ! c" by blast
    have eq: "h' ! b = h ! b" using same that(3) by simp
    then have "live h' b" using that(2) len by (simp add: live_def)
    then have "fake_Now b h' = Inr (fake_t (h ! b), h')"
      using eq by (simp add: fake_Now_live)
    then show ?thesis using m that(2) by (simp add: fake_Now_live)
  qed
  show ?thesis using ne one [of f g] one [of g f] assms(4,5) by blast
qed

theorem separate_NewFake_clocks_independent_witness:
  "NewFake [] = (0, snd (NewFake [])) \<and>
   NewFake (snd (NewFake [])) = (1, snd (NewFake (snd (NewFake [])))) \<and>
   live (snd (NewFake (snd (NewFake [])))) 0 \<and>
   live (snd (NewFake (snd (NewFake [])))) 1 \<and>
   (\<exists>v h'. mutate 0 [Add 5, Set \<lparr>wall = 5, ext = 7, loc = localLoc\<rparr>]
              (snd (NewFake (snd (NewFake [])))) = Inr h' \<and>
      fake_Now 1 (snd (NewFake (snd (NewFake [])))) = Inr (v, snd (NewFake (snd (NewFake [])))) \<and>
      fake_Now 1 h' = Inr (v, h'))"
proof -
  let ?h1 = "snd (NewFake [])"
  let ?h3 = "snd (NewFake ?h1)"
  have a1: "NewFake [] = (0, ?h1)" by (simp add: NewFake_def)
  have a2: "NewFake ?h1 = (1, ?h3)" by (simp add: NewFake_def)
  have a3: "length ?h1 \<le> length ?h1" by simp
  have l0: "live ?h3 0" using NewFake_keeps [OF live_first_clock] by simp
  have f1: "fst (NewFake ?h1) = 1" by (simp add: NewFake_def)
  have l1: "live ?h3 1" using NewFake_live [of ?h1] by (simp only: f1)
  show ?thesis
    using a1 a2 l0 l1 separate_NewFake_clocks_independent [OF a1 a2 a3 l0 l1]
    by blast
qed

text \<open>
  C7. \<^verbatim>\<open>Default\<close> returns the value of \<^verbatim>\<open>systemClock\<close> at every call; its type has
  a single value and no field, so there is no state to hold; and \<^verbatim>\<open>Now\<close> on it
  returns the reading of the host's clock taken at that call, unchanged.
\<close>

theorem Default_same_stateless_instance:
  "Default () = systemClock \<and> (\<forall>c :: sysClock. c = Default ()) \<and>
   sysClock_Now (Default ()) host_now = host_now"
proof -
  have "\<And>c :: sysClock. c = sysClock" by (case_tac c) simp
  then show ?thesis by (simp add: Default_def systemClock_def sysClock_Now_def)
qed

theorem Default_same_stateless_instance_witness:
  "sysClock_Now (Default ()) \<lparr>wall = 5, ext = 7, loc = localLoc\<rparr> =
     \<lparr>wall = 5, ext = 7, loc = localLoc\<rparr>"
  using Default_same_stateless_instance [of "\<lparr>wall = 5, ext = 7, loc = localLoc\<rparr>"]
  by (rule conjunct2 [THEN conjunct2])

text \<open>
  C8. On a live clock every call returns: \<^verbatim>\<open>Now\<close> yields a value, \<^verbatim>\<open>Add\<close> and
  \<^verbatim>\<open>Set\<close> yield a store for every duration and every instant, every sequence of them
  runs to its end, and the clock is live again afterwards. \<^verbatim>\<open>NewFake\<close> yields a live
  clock and keeps the existing ones live. None of the three failures of the model is
  reachable from a live clock. \<^verbatim>\<open>Default\<close> and \<^verbatim>\<open>sysClock.Now\<close> have no step that
  can fail.
\<close>

theorem every_operation_returns:
  "live h f \<Longrightarrow>
     (\<exists>v. fake_Now f h = Inr (v, h)) \<and>
     (\<forall>d. \<exists>h'. fake_Add f d h = Inr h' \<and> live h' f) \<and>
     (\<forall>x. \<exists>h'. fake_Set f x h = Inr h' \<and> live h' f) \<and>
     (\<forall>ms. \<exists>h'. mutate f ms h = Inr h' \<and> live h' f) \<and>
     live (snd (NewFake h)) (fst (NewFake h)) \<and> live (snd (NewFake h)) f \<and>
     (\<exists>c v. Default () = c \<and> sysClock_Now c host_now = v)"
  using NewFake_keeps [of h f] NewFake_live [of h] mutate_live [of h f]
  by (simp add: fake_Now_live fake_Add_live fake_Set_live live_store_t) blast

theorem every_operation_returns_witness:
  "live (snd (NewFake [])) 0 \<and>
   (\<exists>h'. fake_Add 0 (- 1) (snd (NewFake [])) = Inr h' \<and> live h' 0) \<and>
   (\<exists>h'. fake_Set 0 \<lparr>wall = 5, ext = 7, loc = localLoc\<rparr> (snd (NewFake [])) = Inr h' \<and>
      live h' 0)"
  using live_first_clock every_operation_returns [OF live_first_clock] by blast

text \<open>
  C10. \<^verbatim>\<open>Set(x)\<close> stores \<open>x\<close> field by field: the wall word with its monotonic flag,
  the ext word and the location pointer, so that the next \<^verbatim>\<open>Now\<close> returns a value
  with the location of \<open>x\<close>, whether or not that is UTC. \<^verbatim>\<open>Add\<close> keeps the location
  pointer of the stored value. No mutation puts UTC back.
\<close>

theorem Set_stores_representation_Add_keeps_location:
  "live h f \<Longrightarrow>
     (\<exists>h'. fake_Set f x h = Inr h' \<and> fake_t (h' ! f) = x \<and>
        (\<exists>v. fake_Now f h' = Inr (v, h') \<and> wall v = wall x \<and> ext v = ext x \<and>
           loc v = loc x \<and> time_Location v = time_Location x)) \<and>
     (\<exists>h'. fake_Add f d h = Inr h' \<and> loc (fake_t (h' ! f)) = loc (fake_t (h ! f)) \<and>
        time_Location (fake_t (h' ! f)) = time_Location (fake_t (h ! f)))"
proof -
  assume l: "live h f"
  let ?h' = "h[f := (h ! f)\<lparr>fake_t := x\<rparr>]"
  have "live ?h' f" using l by (simp add: live_store_t)
  then have "fake_Now f ?h' = Inr (fake_t (?h' ! f), ?h')" by (rule fake_Now_live)
  moreover have "fake_t (?h' ! f) = x" using l by (simp add: live_def)
  ultimately show ?thesis using l
    by (simp add: fake_Set_live fake_Add_live live_def loc_time_Add time_Location_def)
qed

theorem Set_stores_representation_Add_keeps_location_witness:
  "live (snd (NewFake [])) 0 \<and>
   (\<exists>h'. fake_Set 0 \<lparr>wall = 5, ext = 7, loc = zone 3\<rparr> (snd (NewFake [])) = Inr h' \<and>
      (\<exists>v. fake_Now 0 h' = Inr (v, h') \<and> time_Location v = zone 3))"
proof -
  have "time_Location \<lparr>wall = 5, ext = 7, loc = zone 3\<rparr> = zone 3"
    by (simp add: time_Location_def)
  then show ?thesis
    using live_first_clock
      Set_stores_representation_Add_keeps_location [OF live_first_clock,
        of "\<lparr>wall = 5, ext = 7, loc = zone 3\<rparr>" 5]
    by auto
qed

end
